theory Spec2Isabelle
  imports Main "HOL-Library.AList"
begin

section \<open>Real-time data service: connection manager, broadcast, query and message loop\<close>

text \<open>
  A shallow embedding of \<^verbatim>\<open>src/app.py\<close>. A websocket is an opaque handle of type
  \<open>'ws\<close> (Python hashes and compares it by identity), a stored reading has type \<open>'v\<close>
  and a reading of \<^verbatim>\<open>time.time()\<close> has type \<open>'t\<close>. The transport (accept, send,
  receive), the JSON decoder and the clock are not part of the repository: they are
  parameters of the functions that call them.
\<close>

subsection \<open>Exceptions\<close>

text \<open>
  The exceptions that travel through the code. \<open>RuntimeError\<close> stands for any failure of
  the transport that is an \<^verbatim>\<open>Exception\<close> and not a \<^verbatim>\<open>WebSocketDisconnect\<close>.
\<close>

datatype exc = TypeError | AttributeError | WebSocketDisconnect | RuntimeError

subsection \<open>ConnectionManager\<close>

record 'ws manager =
  active_connections :: "'ws list"
  subscriptions :: "'ws \<rightharpoonup> string list"

text \<open>\<^verbatim>\<open>ConnectionManager.__init__\<close>: no connection, no subscription entry.\<close>

definition init :: "'ws manager" where
  "init = \<lparr>active_connections = [], subscriptions = Map.empty\<rparr>"

text \<open>
  \<^verbatim>\<open>connect\<close>: the handshake \<^verbatim>\<open>await websocket.accept()\<close> comes first; when it raises,
  nothing is registered. Otherwise the websocket is appended to the list and its
  entry is set to the empty list, with no test of whether it is there already.
\<close>

definition connect :: "('ws \<Rightarrow> exc option) \<Rightarrow> 'ws \<Rightarrow> 'ws manager \<Rightarrow> exc + 'ws manager" where
  "connect accept websocket self =
     (case accept websocket of
        Some e \<Rightarrow> Inl e
      | None \<Rightarrow>
          Inr (self\<lparr>active_connections := active_connections self @ [websocket],
                    subscriptions := (subscriptions self)(websocket \<mapsto> [])\<rparr>))"

text \<open>
  \<^verbatim>\<open>disconnect\<close>: \<^verbatim>\<open>list.remove\<close> deletes the first occurrence only; \<^verbatim>\<open>del\<close>
  deletes the entry. Both are guarded by a membership test.
\<close>

definition disconnect :: "'ws \<Rightarrow> 'ws manager \<Rightarrow> 'ws manager" where
  "disconnect websocket self =
     (let self1 = (if websocket \<in> set (active_connections self)
                   then self\<lparr>active_connections := remove1 websocket (active_connections self)\<rparr>
                   else self)
      in if websocket \<in> dom (subscriptions self1)
         then self1\<lparr>subscriptions := (subscriptions self1)(websocket := None)\<rparr>
         else self1)"

text \<open>
  \<^verbatim>\<open>subscribe\<close>: extend the stored list, then \<^verbatim>\<open>list(set(...))\<close>. Python leaves the
  order of the rebuilt list unspecified; \<open>remdups\<close> fixes one order with the same
  elements, each once. Nothing happens for a websocket without an entry.
\<close>

definition subscribe :: "'ws \<Rightarrow> string list \<Rightarrow> 'ws manager \<Rightarrow> 'ws manager" where
  "subscribe websocket topics self =
     (case subscriptions self websocket of
        None \<Rightarrow> self
      | Some ts \<Rightarrow> self\<lparr>subscriptions := (subscriptions self)(websocket \<mapsto> remdups (ts @ topics))\<rparr>)"

text \<open>
  \<^verbatim>\<open>unsubscribe\<close>: \<open>None\<close> is the absent topic list (unsubscribe from all); otherwise
  each listed topic that is in the stored list is removed from it once.
\<close>

definition unsubscribe :: "'ws \<Rightarrow> string list option \<Rightarrow> 'ws manager \<Rightarrow> 'ws manager" where
  "unsubscribe websocket topics self =
     (case subscriptions self websocket of
        None \<Rightarrow> self
      | Some ts \<Rightarrow>
          (case topics of
             None \<Rightarrow> self\<lparr>subscriptions := (subscriptions self)(websocket \<mapsto> [])\<rparr>
           | Some names \<Rightarrow>
               self\<lparr>subscriptions := (subscriptions self)
                  (websocket \<mapsto> fold (\<lambda>topic l. if topic \<in> set l then remove1 topic l else l) names ts)\<rparr>))"

text \<open>\<^verbatim>\<open>self.subscriptions.get(websocket, [])\<close>: the lookup with the empty list as default.\<close>

definition subscribed :: "'ws manager \<Rightarrow> 'ws \<Rightarrow> string list" where
  "subscribed self websocket = (case subscriptions self websocket of None \<Rightarrow> [] | Some ts \<Rightarrow> ts)"

subsection \<open>Broadcast\<close>

text \<open>
  A pushed message is a dict from topic to \<^verbatim>\<open>{"value": v, "timestamp": t}\<close>: an
  association list in insertion order, assignment being \<open>AList.update\<close>.
\<close>

type_synonym ('v, 't) payload = "(string \<times> 'v \<times> 't) list"

text \<open>
  The inner loop of \<^verbatim>\<open>broadcast_data\<close>: one entry for each subscribed topic that is in
  the store. \<open>now topic\<close> is the reading of the clock taken for that entry.
\<close>

definition data_to_send :: "(string \<rightharpoonup> 'v) \<Rightarrow> (string \<Rightarrow> 't) \<Rightarrow> string list \<Rightarrow> ('v, 't) payload" where
  "data_to_send data_store now topics =
     fold (\<lambda>topic d. case data_store topic of
                        Some v \<Rightarrow> AList.update topic (v, now topic) d
                      | None \<Rightarrow> d) topics []"

datatype outcome = Returned | Raised exc

text \<open>
  The outer loop of \<^verbatim>\<open>broadcast_data\<close>. Python's \<^verbatim>\<open>for\<close> over a list keeps an index into
  the list itself (there is no copy), so the loop is written on that index \<open>i\<close> and
  reads the list of the current manager. \<open>sent\<close> collects the messages delivered so far.

  When \<^verbatim>\<open>send_json\<close> raises, the handler calls \<^verbatim>\<open>self.disconnect(websocket)\<close>, which
  is a plain function and returns \<^verbatim>\<open>None\<close>, and then awaits that result: Python raises
  \<^verbatim>\<open>TypeError\<close> there, inside the \<^verbatim>\<open>except\<close> block, so the exception leaves
  \<^verbatim>\<open>broadcast_data\<close> with the websocket already removed.
\<close>

function broadcast_loop ::
  "('ws \<Rightarrow> ('v, 't) payload \<Rightarrow> exc option) \<Rightarrow> ('ws \<Rightarrow> string \<Rightarrow> 't) \<Rightarrow> (string \<rightharpoonup> 'v) \<Rightarrow>
   nat \<Rightarrow> 'ws manager \<Rightarrow> ('ws \<times> ('v, 't) payload) list \<Rightarrow>
   'ws manager \<times> ('ws \<times> ('v, 't) payload) list \<times> outcome" where
  "broadcast_loop send_json clock data_store i self sent =
     (if i < length (active_connections self) then
        (let websocket = active_connections self ! i;
             topics = subscribed self websocket
         in if topics = [] then broadcast_loop send_json clock data_store (Suc i) self sent
            else
              (let d = data_to_send data_store (clock websocket) topics
               in if d = [] then broadcast_loop send_json clock data_store (Suc i) self sent
                  else
                    (case send_json websocket d of
                       None \<Rightarrow>
                         broadcast_loop send_json clock data_store (Suc i) self (sent @ [(websocket, d)])
                     | Some e \<Rightarrow> (disconnect websocket self, sent, Raised TypeError))))
      else (self, sent, Returned))"
  by pat_completeness auto
termination
  by (relation "measure (\<lambda>(send_json, clock, data_store, i, self, sent).
                   length (active_connections self) - i)") auto

declare broadcast_loop.simps [simp del]

definition broadcast_data ::
  "('ws \<Rightarrow> ('v, 't) payload \<Rightarrow> exc option) \<Rightarrow> ('ws \<Rightarrow> string \<Rightarrow> 't) \<Rightarrow> (string \<rightharpoonup> 'v) \<Rightarrow>
   'ws manager \<Rightarrow> 'ws manager \<times> ('ws \<times> ('v, 't) payload) list \<times> outcome" where
  "broadcast_data send_json clock data_store self = broadcast_loop send_json clock data_store 0 self []"

subsection \<open>The tick loop\<close>

text \<open>
  One round of the writes of \<^verbatim>\<open>generate_data\<close>: the four stock keys, then the four
  sensor keys. The formulas use random floating-point numbers; \<open>new_price key current\<close>
  stands for the rounded new price computed from \<^verbatim>\<open>data_store.get(key, 100)\<close> (with
  \<open>current = None\<close> when the key is not yet there) and \<open>reading key\<close> for the rounded
  random sensor value.
\<close>

definition update_values ::
  "(string \<Rightarrow> 'v option \<Rightarrow> 'v) \<Rightarrow> (string \<Rightarrow> 'v) \<Rightarrow> (string \<rightharpoonup> 'v) \<Rightarrow> (string \<rightharpoonup> 'v)" where
  "update_values new_price reading data_store =
     (let s1 = fold (\<lambda>ticker s. let key = ''STOCK:'' @ ticker in s(key \<mapsto> new_price key (s key)))
                 [''MSFT'', ''AAPL'', ''GOOG'', ''AMZN''] data_store
      in fold (\<lambda>sensor_id s. let key = ''SENSOR:'' @ sensor_id in s(key \<mapsto> reading key))
           [''1'', ''2'', ''3'', ''4''] s1)"

text \<open>What the outside world supplies to one tick: the random values, the transport, the clock.\<close>

record ('ws, 'v, 't) tick =
  new_price :: "string \<Rightarrow> 'v option \<Rightarrow> 'v"
  reading :: "string \<Rightarrow> 'v"
  send_json :: "'ws \<Rightarrow> ('v, 't) payload \<Rightarrow> exc option"
  clock :: "'ws \<Rightarrow> string \<Rightarrow> 't"

datatype loop_state = Running | Stopped exc

text \<open>
  \<^verbatim>\<open>generate_data\<close> is \<^verbatim>\<open>while True\<close>: the model runs it on a finite list of ticks and
  says whether the loop is still running after them or was left by an exception
  (nothing in the loop catches one). The result holds the store, the manager, the
  messages delivered in each tick that was started, and that state.
\<close>

fun generate_data ::
  "('ws, 'v, 't) tick list \<Rightarrow> (string \<rightharpoonup> 'v) \<Rightarrow> 'ws manager \<Rightarrow>
   (string \<rightharpoonup> 'v) \<times> 'ws manager \<times> ('ws \<times> ('v, 't) payload) list list \<times> loop_state" where
  "generate_data [] data_store manager = (data_store, manager, [], Running)"
| "generate_data (t # ticks) data_store manager =
     (let data_store' = update_values (new_price t) (reading t) data_store
      in case broadcast_data (send_json t) (clock t) data_store' manager of
           (manager', sent, Raised e) \<Rightarrow> (data_store', manager', [sent], Stopped e)
         | (manager', sent, Returned) \<Rightarrow>
             (case generate_data ticks data_store' manager' of
                (s, m, log, st) \<Rightarrow> (s, m, sent # log, st)))"

subsection \<open>The query route\<close>

datatype ('v, 't) body = Reading 'v 't | Error string

text \<open>\<^verbatim>\<open>get_data\<close>: the key is \<^verbatim>\<open>f"{data_type}:{param}"\<close>; \<open>now\<close> is the clock reading.\<close>

definition get_data :: "'t \<Rightarrow> (string \<rightharpoonup> 'v) \<Rightarrow> string \<Rightarrow> string \<Rightarrow> ('v, 't) body" where
  "get_data now data_store data_type param =
     (let key = data_type @ '':'' @ param
      in case data_store key of
           Some v \<Rightarrow> Reading v now
         | None \<Rightarrow> Error ''Data not found'')"

text \<open>
  The store starts empty and is only ever assigned to (\<^verbatim>\<open>data_store[key] = ...\<close>);
  \<open>writes\<close> replays a list of such assignments.
\<close>

definition writes :: "(string \<times> 'v) list \<Rightarrow> (string \<rightharpoonup> 'v) \<Rightarrow> (string \<rightharpoonup> 'v)" where
  "writes kvs data_store = fold (\<lambda>(key, v) s. s(key \<mapsto> v)) kvs data_store"

subsection \<open>The websocket route\<close>

text \<open>
  What \<^verbatim>\<open>json.loads\<close> makes of a text frame, as far as the route looks at it:
  \<^item> \<open>Undecodable\<close>: it raises \<^verbatim>\<open>JSONDecodeError\<close>;
  \<^item> \<open>NotADict\<close>: it returns a number, a string, a list, a boolean or \<^verbatim>\<open>None\<close>, none of
    which has a \<^verbatim>\<open>get\<close> method;
  \<^item> \<open>Dict command topics\<close>: it returns a dict; \<open>command\<close> is its \<^verbatim>\<open>"command"\<close> field when
    that is a string (\<open>None\<close> when it is missing or anything else, which equals neither
    command name), \<open>topics\<close> its \<^verbatim>\<open>"topics"\<close> field.
  A \<^verbatim>\<open>"topics"\<close> field is missing, \<^verbatim>\<open>null\<close> or a list of strings, the type that
  \<^verbatim>\<open>subscribe\<close> and \<^verbatim>\<open>unsubscribe\<close> declare; other values are outside this model.
\<close>

datatype topics_field = Missing | Null | Topics "string list"

datatype message = Undecodable | NotADict | Dict "string option" topics_field

datatype reply = Subscribed "string list option" | Unsubscribed | ErrorReply string

text \<open>\<^verbatim>\<open>await websocket.send_json(r)\<close> in the route: the reply goes out, or the send raises.\<close>

definition send_reply ::
  "('ws \<Rightarrow> reply \<Rightarrow> exc option) \<Rightarrow> 'ws \<Rightarrow> reply \<Rightarrow> 'ws manager \<Rightarrow> 'ws manager \<times> reply list \<times> exc option" where
  "send_reply send websocket r manager =
     (case send websocket r of None \<Rightarrow> (manager, [r], None) | Some e \<Rightarrow> (manager, [], Some e))"

text \<open>
  The body of the \<^verbatim>\<open>while True\<close> loop once \<^verbatim>\<open>receive_text\<close> has returned \<open>data\<close>. The
  result is the manager, the replies that went out, and the exception that leaves the
  inner \<^verbatim>\<open>try\<close>, if any: only \<^verbatim>\<open>JSONDecodeError\<close> is caught there.

  With \<^verbatim>\<open>"topics": null\<close> the subscribe branch calls \<^verbatim>\<open>extend(None)\<close>, a
  \<^verbatim>\<open>TypeError\<close>, when the websocket has an entry.
\<close>

definition on_message ::
  "(string \<Rightarrow> message) \<Rightarrow> ('ws \<Rightarrow> reply \<Rightarrow> exc option) \<Rightarrow> 'ws \<Rightarrow> string \<Rightarrow> 'ws manager \<Rightarrow>
   'ws manager \<times> reply list \<times> exc option" where
  "on_message loads send websocket data manager =
     (case loads data of
        Undecodable \<Rightarrow> send_reply send websocket (ErrorReply ''Invalid JSON'') manager
      | NotADict \<Rightarrow> (manager, [], Some AttributeError)
      | Dict command topics \<Rightarrow>
          if command = Some ''subscribe'' then
            (case topics of
               Missing \<Rightarrow> send_reply send websocket (Subscribed (Some [])) (subscribe websocket [] manager)
             | Null \<Rightarrow>
                 if websocket \<in> dom (subscriptions manager) then (manager, [], Some TypeError)
                 else send_reply send websocket (Subscribed None) manager
             | Topics ts \<Rightarrow> send_reply send websocket (Subscribed (Some ts)) (subscribe websocket ts manager))
          else if command = Some ''unsubscribe'' then
            send_reply send websocket Unsubscribed
              (unsubscribe websocket (case topics of Topics ts \<Rightarrow> Some ts | _ \<Rightarrow> None) manager)
          else send_reply send websocket (ErrorReply ''Unknown command'') manager)"

datatype status = Waiting | Closed | Crashed exc

text \<open>
  The message loop on a finite list of what \<^verbatim>\<open>receive_text\<close> gives in turn: a text
  frame (\<open>Inr\<close>) or an exception (\<open>Inl\<close>). \<open>Waiting\<close>: the loop awaits the next frame;
  \<open>Closed\<close>: a \<^verbatim>\<open>WebSocketDisconnect\<close> reached the outer handler, which disconnects;
  \<open>Crashed e\<close>: another exception left the route, and nothing disconnects.
\<close>

fun message_loop ::
  "(string \<Rightarrow> message) \<Rightarrow> ('ws \<Rightarrow> reply \<Rightarrow> exc option) \<Rightarrow> 'ws \<Rightarrow> (exc + string) list \<Rightarrow> 'ws manager \<Rightarrow>
   'ws manager \<times> reply list \<times> status" where
  "message_loop loads send websocket [] manager = (manager, [], Waiting)"
| "message_loop loads send websocket (Inl e # events) manager =
     (if e = WebSocketDisconnect then (disconnect websocket manager, [], Closed)
      else (manager, [], Crashed e))"
| "message_loop loads send websocket (Inr data # events) manager =
     (case on_message loads send websocket data manager of
        (manager', out, None) \<Rightarrow>
          (case message_loop loads send websocket events manager' of
             (m, out', st) \<Rightarrow> (m, out @ out', st))
      | (manager', out, Some e) \<Rightarrow>
          if e = WebSocketDisconnect then (disconnect websocket manager', out, Closed)
          else (manager', out, Crashed e))"

definition websocket_endpoint ::
  "('ws \<Rightarrow> exc option) \<Rightarrow> (string \<Rightarrow> message) \<Rightarrow> ('ws \<Rightarrow> reply \<Rightarrow> exc option) \<Rightarrow> 'ws \<Rightarrow>
   (exc + string) list \<Rightarrow> 'ws manager \<Rightarrow> 'ws manager \<times> reply list \<times> status" where
  "websocket_endpoint accept loads send websocket events manager =
     (case connect accept websocket manager of
        Inl e \<Rightarrow> (manager, [], Crashed e)
      | Inr manager' \<Rightarrow> message_loop loads send websocket events manager')"

subsection \<open>Sequences of manager operations\<close>

datatype 'ws op =
    Connect 'ws
  | Disconnect 'ws
  | Subscribe 'ws "string list"
  | Unsubscribe 'ws "string list option"

text \<open>One call on the manager; a \<^verbatim>\<open>connect\<close> whose handshake raises leaves it as it was.\<close>

fun apply_op :: "('ws \<Rightarrow> exc option) \<Rightarrow> 'ws op \<Rightarrow> 'ws manager \<Rightarrow> 'ws manager" where
  "apply_op accept (Connect w) m = (case connect accept w m of Inl e \<Rightarrow> m | Inr m' \<Rightarrow> m')"
| "apply_op accept (Disconnect w) m = disconnect w m"
| "apply_op accept (Subscribe w topics) m = subscribe w topics m"
| "apply_op accept (Unsubscribe w topics) m = unsubscribe w topics m"

fun run :: "('ws \<Rightarrow> exc option) \<Rightarrow> 'ws op list \<Rightarrow> 'ws manager \<Rightarrow> 'ws manager" where
  "run accept [] m = m"
| "run accept (x # xs) m = run accept xs (apply_op accept x m)"


subsection \<open>Concrete surroundings for runs of the code\<close>

text \<open>
  A handshake that succeeds, transports that deliver everything or everything but the
  messages for one websocket, a clock that stands still, and \<^verbatim>\<open>json.loads\<close> on the
  frames \<^verbatim>\<open>42\<close> and \<^verbatim>\<open>[]\<close> (valid JSON, no dict), \<^verbatim>\<open>{}\<close> (a dict without fields)
  and \<^verbatim>\<open>{\<close> (no JSON); the frames of the runs below are among these four.
\<close>

definition accepts :: "'ws \<Rightarrow> exc option" where
  "accepts w = None"

definition delivers :: "'ws \<Rightarrow> 'd \<Rightarrow> exc option" where
  "delivers w d = None"

definition delivers_except :: "'ws \<Rightarrow> 'ws \<Rightarrow> 'd \<Rightarrow> exc option" where
  "delivers_except bad w d = (if w = bad then Some RuntimeError else None)"

definition at_time :: "'t \<Rightarrow> 'ws \<Rightarrow> string \<Rightarrow> 't" where
  "at_time t w topic = t"

definition loads_sample :: "string \<Rightarrow> message" where
  "loads_sample data =
     (if data = ''42'' \<or> data = ''[]'' then NotADict
      else if data = ''{}'' then Dict None Missing
      else Undecodable)"

definition sample_tick :: "nat \<Rightarrow> (nat, nat, nat) tick" where
  "sample_tick bad =
     \<lparr>new_price = (\<lambda>key current. case current of None \<Rightarrow> 10000 | Some v \<Rightarrow> v),
      reading = (\<lambda>key. 2500),
      send_json = delivers_except bad,
      clock = at_time 0\<rparr>"

subsection \<open>The invariant of the manager\<close>


section \<open>Properties\<close>

subsection \<open>Effects of the manager's operations\<close>










lemma writes_untouched: "key \<notin> fst ` set kvs \<Longrightarrow> writes kvs s key = s key"
  unfolding writes_def by (induction kvs arbitrary: s) auto

subsection \<open>The payload\<close>

lemma fold_payload:
  "map_of (fold (\<lambda>topic d. case st topic of Some v \<Rightarrow> AList.update topic (v, now topic) d | None \<Rightarrow> d)
             topics d0)
   = (\<lambda>t. if t \<in> set topics \<and> st t \<noteq> None then Some (the (st t), now t) else map_of d0 t)"
proof (induction topics arbitrary: d0)
  case Nil
  show ?case by simp
next
  case (Cons a topics)
  show ?case
    by (cases "st a") (auto simp: Cons.IH update_conv' fun_eq_iff)
qed

lemma fold_payload_distinct:
  "distinct (map fst d0) \<Longrightarrow>
   distinct (map fst (fold (\<lambda>topic d. case st topic of Some v \<Rightarrow> AList.update topic (v, now topic) d
                                        | None \<Rightarrow> d) topics d0))"
proof (induction topics arbitrary: d0)
  case Nil
  then show ?case by simp
next
  case (Cons a topics)
  then show ?case
    by (cases "st a") (simp_all add: distinct_update)
qed

lemma map_of_data_to_send:
  "map_of (data_to_send st now topics) =
     (\<lambda>t. if t \<in> set topics then map_option (\<lambda>v. (v, now t)) (st t) else None)"
  unfolding data_to_send_def fold_payload by (auto simp: fun_eq_iff)

lemma distinct_data_to_send: "distinct (map fst (data_to_send st now topics))"
  unfolding data_to_send_def by (rule fold_payload_distinct) simp

lemma data_to_send_Nil_iff:
  "data_to_send st now topics = [] \<longleftrightarrow> (\<forall>t \<in> set topics. st t = None)"
proof -
  have "data_to_send st now topics = [] \<longleftrightarrow> map_of (data_to_send st now topics) = Map.empty"
    by simp
  also have "\<dots> \<longleftrightarrow> (\<forall>t \<in> set topics. st t = None)"
    unfolding map_of_data_to_send by (auto simp: fun_eq_iff split: if_splits)
  finally show ?thesis .
qed

lemma data_to_send_no_topics: "data_to_send st now [] = []"
  by (simp add: data_to_send_def)

lemma subscribed_no_entry: "subscriptions m w = None \<Longrightarrow> subscribed m w = []"
  by (simp add: subscribed_def)

subsection \<open>One step of the broadcast loop\<close>

text \<open>
  The four ways through the loop body. An empty topic list gives an empty payload, so
  the two \<^verbatim>\<open>continue\<close> paths are one case here.
\<close>

lemma loop_done:
  "\<not> i < length (active_connections m) \<Longrightarrow> broadcast_loop send clk st i m sent = (m, sent, Returned)"
  by (subst broadcast_loop.simps) simp

lemma loop_skip:
  "i < length (active_connections m) \<Longrightarrow>
   data_to_send st (clk (active_connections m ! i)) (subscribed m (active_connections m ! i)) = [] \<Longrightarrow>
   broadcast_loop send clk st i m sent = broadcast_loop send clk st (Suc i) m sent"
  by (subst broadcast_loop.simps) (simp add: Let_def)

lemma loop_deliver:
  "i < length (active_connections m) \<Longrightarrow>
   data_to_send st (clk (active_connections m ! i)) (subscribed m (active_connections m ! i)) \<noteq> [] \<Longrightarrow>
   send (active_connections m ! i)
     (data_to_send st (clk (active_connections m ! i)) (subscribed m (active_connections m ! i))) = None \<Longrightarrow>
   broadcast_loop send clk st i m sent =
     broadcast_loop send clk st (Suc i) m
       (sent @ [(active_connections m ! i,
                 data_to_send st (clk (active_connections m ! i)) (subscribed m (active_connections m ! i)))])"
  by (subst broadcast_loop.simps) (auto simp: Let_def data_to_send_no_topics)

lemma loop_fail:
  "i < length (active_connections m) \<Longrightarrow>
   data_to_send st (clk (active_connections m ! i)) (subscribed m (active_connections m ! i)) \<noteq> [] \<Longrightarrow>
   send (active_connections m ! i)
     (data_to_send st (clk (active_connections m ! i)) (subscribed m (active_connections m ! i))) = Some e \<Longrightarrow>
   broadcast_loop send clk st i m sent = (disconnect (active_connections m ! i) m, sent, Raised TypeError)"
  by (subst broadcast_loop.simps) (auto simp: Let_def data_to_send_no_topics)

subsection \<open>The whole loop\<close>

text \<open>Every message the loop adds is the payload of a live websocket, and is not empty.\<close>

lemma loop_sent:
  "broadcast_loop send clk st i m sent = (m', sent', r) \<Longrightarrow> (w, p) \<in> set sent' \<Longrightarrow>
   (w, p) \<in> set sent \<or>
   (w \<in> set (active_connections m) \<and> p = data_to_send st (clk w) (subscribed m w) \<and> p \<noteq> [])"
proof (induction "length (active_connections m) - i" arbitrary: i sent)
  case 0
  then show ?case by (simp add: loop_done)
next
  case (Suc n)
  then have less: "i < length (active_connections m)" and n: "n = length (active_connections m) - Suc i"
    by simp_all
  let ?w = "active_connections m ! i"
  let ?d = "data_to_send st (clk ?w) (subscribed m ?w)"
  have live: "?w \<in> set (active_connections m)" using less by simp
  show ?case
  proof (cases "?d = []")
    case True
    with Suc.prems less have "broadcast_loop send clk st (Suc i) m sent = (m', sent', r)"
      by (simp add: loop_skip)
    from Suc.hyps(1) [OF n this Suc.prems(2)] show ?thesis .
  next
    case False
    show ?thesis
    proof (cases "send ?w ?d")
      case None
      with Suc.prems less False
      have "broadcast_loop send clk st (Suc i) m (sent @ [(?w, ?d)]) = (m', sent', r)"
        by (simp add: loop_deliver)
      from Suc.hyps(1) [OF n this Suc.prems(2)] False live show ?thesis by auto
    next
      case (Some e)
      with Suc.prems less False have "sent' = sent" by (simp add: loop_fail)
      with Suc.prems(2) show ?thesis by simp
    qed
  qed
qed

text \<open>A loop that returns has changed nothing and has delivered every non-empty payload from \<open>i\<close> on.\<close>

lemma loop_returned:
  "broadcast_loop send clk st i m sent = (m', sent', Returned) \<Longrightarrow>
   m' = m \<and> set sent \<subseteq> set sent' \<and>
   (\<forall>j. i \<le> j \<and> j < length (active_connections m) \<and>
        data_to_send st (clk (active_connections m ! j)) (subscribed m (active_connections m ! j)) \<noteq> [] \<longrightarrow>
        (active_connections m ! j,
         data_to_send st (clk (active_connections m ! j)) (subscribed m (active_connections m ! j))) \<in> set sent')"
proof (induction "length (active_connections m) - i" arbitrary: i sent)
  case 0
  then show ?case by (auto simp: loop_done)
next
  case (Suc n)
  then have less: "i < length (active_connections m)" and n: "n = length (active_connections m) - Suc i"
    by simp_all
  let ?w = "active_connections m ! i"
  let ?d = "data_to_send st (clk ?w) (subscribed m ?w)"
  show ?case
  proof (cases "?d = []")
    case True
    with Suc.prems less have "broadcast_loop send clk st (Suc i) m sent = (m', sent', Returned)"
      by (simp add: loop_skip)
    from Suc.hyps(1) [OF n this] True show ?thesis
      by (auto simp: le_Suc_eq dest: le_neq_implies_less)
  next
    case False
    show ?thesis
    proof (cases "send ?w ?d")
      case None
      with Suc.prems less False
      have "broadcast_loop send clk st (Suc i) m (sent @ [(?w, ?d)]) = (m', sent', Returned)"
        by (simp add: loop_deliver)
      from Suc.hyps(1) [OF n this] show ?thesis
        by (auto simp: le_Suc_eq dest: le_neq_implies_less)
    next
      case (Some e)
      with Suc.prems less False show ?thesis by (simp add: loop_fail)
    qed
  qed
qed

text \<open>When no websocket from \<open>i\<close> on has a payload, the loop returns and nothing happens.\<close>

lemma loop_all_skip:
  "(\<forall>j. i \<le> j \<and> j < length (active_connections m) \<longrightarrow>
        data_to_send st (clk (active_connections m ! j)) (subscribed m (active_connections m ! j)) = []) \<Longrightarrow>
   broadcast_loop send clk st i m sent = (m, sent, Returned)"
proof (induction "length (active_connections m) - i" arbitrary: i)
  case 0
  then show ?case by (simp add: loop_done)
next
  case (Suc n)
  then have less: "i < length (active_connections m)" and n: "n = length (active_connections m) - Suc i"
    by simp_all
  from Suc.prems less
  have "broadcast_loop send clk st i m sent = broadcast_loop send clk st (Suc i) m sent"
    by (simp add: loop_skip)
  also have "\<dots> = (m, sent, Returned)"
    using Suc.prems by (intro Suc.hyps(1) [OF n]) auto
  finally show ?case .
qed

text \<open>
  The only exception that leaves the loop is the \<^verbatim>\<open>TypeError\<close> of the failure handler,
  and by then one live websocket has been disconnected.
\<close>

lemma loop_raised:
  "broadcast_loop send clk st i m sent = (m', sent', Raised e) \<Longrightarrow>
   e = TypeError \<and> (\<exists>w \<in> set (active_connections m). m' = disconnect w m)"
proof (induction "length (active_connections m) - i" arbitrary: i sent)
  case 0
  then show ?case by (simp add: loop_done)
next
  case (Suc n)
  then have less: "i < length (active_connections m)" and n: "n = length (active_connections m) - Suc i"
    by simp_all
  let ?w = "active_connections m ! i"
  let ?d = "data_to_send st (clk ?w) (subscribed m ?w)"
  have live: "?w \<in> set (active_connections m)" using less by simp
  show ?case
  proof (cases "?d = []")
    case True
    with Suc.prems less have "broadcast_loop send clk st (Suc i) m sent = (m', sent', Raised e)"
      by (simp add: loop_skip)
    from Suc.hyps(1) [OF n this] show ?thesis .
  next
    case False
    show ?thesis
    proof (cases "send ?w ?d")
      case None
      with Suc.prems less False
      have "broadcast_loop send clk st (Suc i) m (sent @ [(?w, ?d)]) = (m', sent', Raised e)"
        by (simp add: loop_deliver)
      from Suc.hyps(1) [OF n this] show ?thesis .
    next
      case (Some x)
      with Suc.prems less False have "e = TypeError" and "m' = disconnect ?w m"
        by (simp_all add: loop_fail)
      with live show ?thesis by blast
    qed
  qed
qed

text \<open>When the transport delivers everything, the loop returns.\<close>

lemma loop_no_failure:
  "(\<forall>w p. send w p = None) \<Longrightarrow> \<exists>sent'. broadcast_loop send clk st i m sent = (m, sent', Returned)"
proof (induction "length (active_connections m) - i" arbitrary: i sent)
  case 0
  then show ?case by (simp add: loop_done)
next
  case (Suc n)
  then have less: "i < length (active_connections m)" and n: "n = length (active_connections m) - Suc i"
    by simp_all
  let ?w = "active_connections m ! i"
  let ?d = "data_to_send st (clk ?w) (subscribed m ?w)"
  show ?case
  proof (cases "?d = []")
    case True
    with less have "broadcast_loop send clk st i m sent = broadcast_loop send clk st (Suc i) m sent"
      by (simp add: loop_skip)
    with Suc.hyps(1) [OF n Suc.prems, of sent] show ?thesis by simp
  next
    case False
    from Suc.prems have "send ?w ?d = None" by simp
    with less False
    have "broadcast_loop send clk st i m sent =
            broadcast_loop send clk st (Suc i) m (sent @ [(?w, ?d)])"
      by (simp add: loop_deliver)
    with Suc.hyps(1) [OF n Suc.prems, of "sent @ [(?w, ?d)]"] show ?thesis by simp
  qed
qed

subsection \<open>A whole tick\<close>

text \<open>
  What the code does right in every tick: a message that is delivered goes to a live
  connection with at least one subscribed topic that has a stored value, and holds
  exactly the subscribed topics with a stored value, each once and with its current
  value (and the clock reading taken for it). A subscribed topic without a value is
  not in the message, and a message is never empty.
\<close>

lemma delivered_message_exact:
  assumes run: "broadcast_data send clk st m = (m', sent, r)" and d: "(w, p) \<in> set sent"
  shows "w \<in> set (active_connections m)"
    and "\<exists>t \<in> set (subscribed m w). st t \<noteq> None"
    and "distinct (map fst p)"
    and "map_of p = (\<lambda>t. if t \<in> set (subscribed m w) then map_option (\<lambda>v. (v, clk w t)) (st t) else None)"
proof -
  from run have loop: "broadcast_loop send clk st 0 m [] = (m', sent, r)"
    by (simp add: broadcast_data_def)
  from loop_sent [OF loop d]
  have live: "w \<in> set (active_connections m)"
    and p: "p = data_to_send st (clk w) (subscribed m w)" and ne: "p \<noteq> []"
    by auto
  show "w \<in> set (active_connections m)" by (rule live)
  show "\<exists>t \<in> set (subscribed m w). st t \<noteq> None"
    using ne unfolding p data_to_send_Nil_iff by blast
  show "distinct (map fst p)" unfolding p by (rule distinct_data_to_send)
  show "map_of p = (\<lambda>t. if t \<in> set (subscribed m w) then map_option (\<lambda>v. (v, clk w t)) (st t) else None)"
    unfolding p by (rule map_of_data_to_send)
qed

text \<open>
  In a tick in which the transport delivers everything, the broadcast returns, the
  manager is unchanged, and a live connection is sent a message if and only if at
  least one of its subscribed topics has a stored value.
\<close>

lemma all_delivered_when_no_send_fails:
  assumes ok: "\<forall>w p. send w p = None"
  shows "\<exists>sent. broadcast_data send clk st m = (m, sent, Returned) \<and>
           (\<forall>w \<in> set (active_connections m).
              (\<exists>p. (w, p) \<in> set sent) \<longleftrightarrow> (\<exists>t \<in> set (subscribed m w). st t \<noteq> None))"
proof -
  from loop_no_failure [OF ok, of clk st 0 m "[]"]
  obtain sent where ret: "broadcast_loop send clk st 0 m [] = (m, sent, Returned)" by blast
  then have run: "broadcast_data send clk st m = (m, sent, Returned)"
    by (simp add: broadcast_data_def)
  have "(\<exists>p. (w, p) \<in> set sent) \<longleftrightarrow> (\<exists>t \<in> set (subscribed m w). st t \<noteq> None)"
    if "w \<in> set (active_connections m)" for w
  proof
    assume "\<exists>p. (w, p) \<in> set sent"
    then obtain p where "(w, p) \<in> set sent" ..
    from delivered_message_exact(2) [OF run this]
    show "\<exists>t \<in> set (subscribed m w). st t \<noteq> None" .
  next
    assume "\<exists>t \<in> set (subscribed m w). st t \<noteq> None"
    then have ne: "data_to_send st (clk w) (subscribed m w) \<noteq> []"
      by (simp add: data_to_send_Nil_iff)
    from that obtain j where j: "j < length (active_connections m)" and w: "active_connections m ! j = w"
      by (auto simp: in_set_conv_nth)
    with loop_returned [OF ret] ne
    have "(w, data_to_send st (clk w) (subscribed m w)) \<in> set sent" by auto
    then show "\<exists>p. (w, p) \<in> set sent" ..
  qed
  with run show ?thesis by blast
qed

text \<open>
  The scenario of the specification: connection 1 is subscribed to \<open>STOCK:AAPL\<close> and
  \<open>SENSOR:1\<close>, connection 2 to \<open>SENSOR:1\<close>, and only \<open>STOCK:AAPL\<close> has a value.
  Connection 1 gets the one entry, connection 2 gets no message.
\<close>

lemma specification_scenario:
  "broadcast_data delivers (at_time (7::nat)) [''STOCK:AAPL'' \<mapsto> (10123::nat)]
     \<lparr>active_connections = [1::nat, 2],
      subscriptions = [1 \<mapsto> [''STOCK:AAPL'', ''SENSOR:1''], 2 \<mapsto> [''SENSOR:1'']]\<rparr>
   = (\<lparr>active_connections = [1, 2],
       subscriptions = [1 \<mapsto> [''STOCK:AAPL'', ''SENSOR:1''], 2 \<mapsto> [''SENSOR:1'']]\<rparr>,
      [(1, [(''STOCK:AAPL'', 10123, 7)])], Returned)"
  by (simp add: broadcast_data_def broadcast_loop.simps Let_def subscribed_def data_to_send_def
        delivers_def at_time_def)

subsection \<open>Frames that are no JSON, and dicts without a known command\<close>

text \<open>
  A frame on which \<^verbatim>\<open>json.loads\<close> raises \<^verbatim>\<open>JSONDecodeError\<close> is answered with
  \<^verbatim>\<open>{"error": "Invalid JSON"}\<close>, the manager stays as it is and the loop goes on
  with the next event, as long as the reply itself can be sent. The same holds, with
  \<^verbatim>\<open>{"error": "Unknown command"}\<close>, for a dict whose command is neither name.
\<close>

lemma undecodable_frame_keeps_loop:
  assumes "loads data = Undecodable" and "send w (ErrorReply ''Invalid JSON'') = None"
  shows "message_loop loads send w (Inr data # events) m =
           (case message_loop loads send w events m of
              (m', out, s) \<Rightarrow> (m', ErrorReply ''Invalid JSON'' # out, s))"
  using assms by (simp add: on_message_def send_reply_def)

lemma unknown_command_keeps_loop:
  assumes "loads data = Dict command topics"
    and "command \<noteq> Some ''subscribe''" and "command \<noteq> Some ''unsubscribe''"
    and "send w (ErrorReply ''Unknown command'') = None"
  shows "message_loop loads send w (Inr data # events) m =
           (case message_loop loads send w events m of
              (m', out, s) \<Rightarrow> (m', ErrorReply ''Unknown command'' # out, s))"
  using assms by (simp add: on_message_def send_reply_def)

text \<open>A frame that is JSON and no dict ends the route, whatever follows and whatever the transport does.\<close>

lemma non_dict_frame_crashes:
  "loads data = NotADict \<Longrightarrow>
   message_loop loads send w (Inr data # events) m = (m, [], Crashed AttributeError)"
  by (simp add: on_message_def)

section \<open>The claims\<close>

subsection \<open>Registration\<close>

text \<open>
  Claim C4, as amended. Registering a connection is never a no-op: once the handshake
  has succeeded, \<^verbatim>\<open>connect\<close> appends one more entry for the connection to the live
  list, also when the connection is there already, and replaces its subscription list
  by the empty list, also when it had subscriptions; the entries of the other
  connections stay as they are.
\<close>

theorem connect_appends_and_resets:
  "accept w = None \<Longrightarrow>
     (\<exists>m'. connect accept w m = Inr m' \<and>
        active_connections m' = active_connections m @ [w] \<and>
        count_list (active_connections m') w = Suc (count_list (active_connections m) w) \<and>
        subscriptions m' w = Some [] \<and>
        (\<forall>w'. w' \<noteq> w \<longrightarrow> subscriptions m' w' = subscriptions m w'))"
  by (simp add: connect_def)

text \<open>
  The claim as it was written fails: connecting websocket 1 again, while it is live
  and subscribed to \<open>A\<close>, gives a list that holds it twice and an empty subscription list.
\<close>

theorem connect_again_counterexample:
  "connect accepts (1::nat) \<lparr>active_connections = [1], subscriptions = [1 \<mapsto> [''A'']]\<rparr>
     = Inr \<lparr>active_connections = [1, 1], subscriptions = [1 \<mapsto> []]\<rparr>"
  by (simp add: connect_def accepts_def)

theorem connect_appends_and_resets_witness:
  "accepts (1::nat) = None \<and>
   (\<exists>m'. connect accepts (1::nat) \<lparr>active_connections = [1], subscriptions = [1 \<mapsto> [''A'']]\<rparr> = Inr m' \<and>
      active_connections m' = [1, 1] \<and> subscriptions m' 1 = Some [])"
proof -
  have h: "accepts (1::nat) = None" by (simp add: accepts_def)
  from connect_appends_and_resets [of accepts "1::nat" "\<lparr>active_connections = [1], subscriptions = [1 \<mapsto> [''A'']]\<rparr>"] h
  show ?thesis by auto
qed




subsection \<open>Subscriptions\<close>

text \<open>
  Claim C8. For a registered connection, \<^verbatim>\<open>subscribe\<close> is a set union: the topics
  afterwards are the old ones and the listed ones, each once; a list with duplicates
  gives the same set of topics as the list without them; and the same call a second
  time leaves the set of topics as it is.
\<close>

theorem subscribe_union:
  "w \<in> dom (subscriptions m) \<longrightarrow>
     set (subscribed (subscribe w topics m) w) = set (subscribed m w) \<union> set topics
     \<and> distinct (subscribed (subscribe w topics m) w)
     \<and> set (subscribed (subscribe w (remdups topics) m) w) = set (subscribed (subscribe w topics m) w)
     \<and> set (subscribed (subscribe w topics (subscribe w topics m)) w) = set (subscribed (subscribe w topics m) w)"
  by (auto simp: subscribe_def subscribed_def split: option.splits)

theorem subscribe_union_witness:
  "(1::nat) \<in> dom (subscriptions \<lparr>active_connections = [1], subscriptions = [1 \<mapsto> [''B'']]\<rparr>)
   \<and> set (subscribed (subscribe 1 [''A'', ''A'', ''B'']
            \<lparr>active_connections = [1::nat], subscriptions = [1 \<mapsto> [''B'']]\<rparr>) 1) = {''A'', ''B''}
   \<and> set (subscribed (subscribe 1 [''A'', ''B'']
            \<lparr>active_connections = [1::nat], subscriptions = [1 \<mapsto> [''B'']]\<rparr>) 1) = {''A'', ''B''}"
proof -
  have h: "(1::nat) \<in> dom (subscriptions \<lparr>active_connections = [1], subscriptions = [1 \<mapsto> [''B'']]\<rparr>)"
    by simp
  from subscribe_union [of 1 "\<lparr>active_connections = [1::nat], subscriptions = [1 \<mapsto> [''B'']]\<rparr>" "[''A'', ''A'', ''B'']"]
       subscribe_union [of 1 "\<lparr>active_connections = [1::nat], subscriptions = [1 \<mapsto> [''B'']]\<rparr>" "[''A'', ''B'']"] h
  show ?thesis by (auto simp: subscribed_def)
qed

text \<open>
  Claim C9. For every connection and every manager, \<^verbatim>\<open>unsubscribe\<close> with an absent
  topic list leaves the connection with no subscribed topic: a registered connection
  has the empty list as its entry afterwards, and a connection without an entry still
  has none.
\<close>

theorem unsubscribe_all:
  "subscribed (unsubscribe w None m) w = []
   \<and> subscriptions (unsubscribe w None m) w = (if w \<in> dom (subscriptions m) then Some [] else None)"
  by (auto simp: unsubscribe_def subscribed_def split: option.splits)

theorem unsubscribe_all_witness:
  "subscribed (unsubscribe (1::nat) None
      \<lparr>active_connections = [1], subscriptions = [1 \<mapsto> [''A'', ''B'']]\<rparr>) 1 = []
   \<and> subscriptions (unsubscribe (1::nat) None
      \<lparr>active_connections = [1], subscriptions = [1 \<mapsto> [''A'', ''B'']]\<rparr>) 1 = Some []"
  using unsubscribe_all [of "1::nat" "\<lparr>active_connections = [1], subscriptions = [1 \<mapsto> [''A'', ''B'']]\<rparr>"]
  by simp

subsection \<open>The query route\<close>

text \<open>
  Claim C7. For every category and instance, \<^verbatim>\<open>get_data\<close> returns the stored value
  with a timestamp when the key \<open>category:instance\<close> is in the store, and the body
  \<^verbatim>\<open>{"error": "Data not found"}\<close> when it is not; a key that no assignment to the
  store has written is not in it.
\<close>

theorem get_data_found_or_not:
  "get_data now data_store c i =
     (case data_store (c @ '':'' @ i) of Some v \<Rightarrow> Reading v now | None \<Rightarrow> Error ''Data not found'')
   \<and> ((c @ '':'' @ i) \<notin> fst ` set kvs \<longrightarrow> get_data now (writes kvs Map.empty) c i = Error ''Data not found'')"
  by (simp add: get_data_def writes_untouched)

theorem get_data_found_or_not_witness:
  "get_data (7::nat) (writes [(''STOCK:AAPL'', 10123::nat)] Map.empty) ''STOCK'' ''AAPL'' = Reading 10123 7
   \<and> (''STOCK'' @ '':'' @ ''MSFT'') \<notin> fst ` set [(''STOCK:AAPL'', 10123::nat)]
   \<and> get_data (7::nat) (writes [(''STOCK:AAPL'', 10123::nat)] Map.empty) ''STOCK'' ''MSFT'' = Error ''Data not found''"
proof -
  have h: "(''STOCK'' @ '':'' @ ''MSFT'') \<notin> fst ` set [(''STOCK:AAPL'', 10123::nat)]" by simp
  from get_data_found_or_not [of "7::nat" "writes [(''STOCK:AAPL'', 10123::nat)] Map.empty" "''STOCK''" "''AAPL''"
          "[(''STOCK:AAPL'', 10123::nat)]"]
       get_data_found_or_not [of "7::nat" "writes [(''STOCK:AAPL'', 10123::nat)] Map.empty" "''STOCK''" "''MSFT''"
          "[(''STOCK:AAPL'', 10123::nat)]"] h
  show ?thesis by (simp add: writes_def)
qed

subsection \<open>The broadcast\<close>

text \<open>
  Claim C6, evaluated where the code departs from it. Connections 1 and 2 are live.
  Connection 1 is subscribed to \<open>SENSOR:1\<close>, connection 2 to \<open>STOCK:AAPL\<close> and
  \<open>SENSOR:2\<close>; the store has values for \<open>SENSOR:1\<close> and \<open>STOCK:AAPL\<close>. The delivery to
  connection 1 fails. Connection 2 has a subscribed topic with a stored value, its
  payload would be the one entry for \<open>STOCK:AAPL\<close>, and no message is sent to it in
  this tick: the \<^verbatim>\<open>TypeError\<close> of the failure handler ends the tick before the loop
  reaches it.
\<close>

theorem data_without_message:
  "broadcast_data (delivers_except 1) (at_time (0::nat))
     [''SENSOR:1'' \<mapsto> (2500::nat), ''STOCK:AAPL'' \<mapsto> 10123]
     \<lparr>active_connections = [1::nat, 2],
      subscriptions = [1 \<mapsto> [''SENSOR:1''], 2 \<mapsto> [''STOCK:AAPL'', ''SENSOR:2'']]\<rparr>
   = (\<lparr>active_connections = [2], subscriptions = [2 \<mapsto> [''STOCK:AAPL'', ''SENSOR:2'']]\<rparr>,
      [], Raised TypeError)
   \<and> data_to_send [''SENSOR:1'' \<mapsto> (2500::nat), ''STOCK:AAPL'' \<mapsto> 10123] (at_time (0::nat) (2::nat))
        (subscribed \<lparr>active_connections = [1::nat, 2],
           subscriptions = [1 \<mapsto> [''SENSOR:1''], 2 \<mapsto> [''STOCK:AAPL'', ''SENSOR:2'']]\<rparr> 2)
      = [(''STOCK:AAPL'', 10123, 0)]"
  by (simp add: broadcast_data_def broadcast_loop.simps Let_def subscribed_def data_to_send_def
        delivers_except_def at_time_def disconnect_def fun_eq_iff)

text \<open>
  Claim C10. \<^verbatim>\<open>broadcast_data\<close> is total, and a connection that is in the live list
  without an entry in the subscription mapping is passed over: the lookup gives the
  empty list, the loop goes on with the next index in the same state, no message for
  that connection is delivered in the tick, and when no live connection has an entry
  the tick returns with nothing sent and nothing changed.
\<close>

theorem broadcast_skips_connection_without_entry:
  "(i < length (active_connections m) \<and> subscriptions m (active_connections m ! i) = None \<longrightarrow>
       broadcast_loop send clk st i m sent = broadcast_loop send clk st (Suc i) m sent)
   \<and> (subscriptions m w = None \<and> broadcast_data send clk st m = (m', out, r) \<longrightarrow> (\<forall>p. (w, p) \<notin> set out))
   \<and> ((\<forall>w \<in> set (active_connections m). subscriptions m w = None) \<longrightarrow>
         broadcast_data send clk st m = (m, [], Returned))"
proof (intro conjI impI allI)
  assume "i < length (active_connections m) \<and> subscriptions m (active_connections m ! i) = None"
  then show "broadcast_loop send clk st i m sent = broadcast_loop send clk st (Suc i) m sent"
    by (simp add: loop_skip subscribed_no_entry data_to_send_no_topics)
next
  fix p
  assume a: "subscriptions m w = None \<and> broadcast_data send clk st m = (m', out, r)"
  then have "broadcast_loop send clk st 0 m [] = (m', out, r)"
    by (simp add: broadcast_data_def)
  from loop_sent [OF this, of w p] a show "(w, p) \<notin> set out"
    by (auto simp: subscribed_no_entry data_to_send_no_topics)
next
  assume "\<forall>w \<in> set (active_connections m). subscriptions m w = None"
  then show "broadcast_data send clk st m = (m, [], Returned)"
    unfolding broadcast_data_def
    by (intro loop_all_skip) (simp add: subscribed_no_entry data_to_send_no_topics)
qed

theorem broadcast_skips_connection_without_entry_witness:
  "subscriptions \<lparr>active_connections = [5::nat], subscriptions = Map.empty\<rparr> 5 = None
   \<and> broadcast_data (delivers_except 5) (at_time (0::nat)) [''STOCK:AAPL'' \<mapsto> (10123::nat)]
        \<lparr>active_connections = [5::nat], subscriptions = Map.empty\<rparr>
      = (\<lparr>active_connections = [5], subscriptions = Map.empty\<rparr>, [], Returned)"
proof -
  let ?m = "\<lparr>active_connections = [5::nat], subscriptions = Map.empty\<rparr>"
  have h: "\<forall>w \<in> set (active_connections ?m). subscriptions ?m w = None" by simp
  from broadcast_skips_connection_without_entry
         [of 0 ?m "delivers_except 5" "at_time (0::nat)" "[''STOCK:AAPL'' \<mapsto> (10123::nat)]" "[]" 5 ?m "[]" Returned] h
  show ?thesis by simp
qed

text \<open>
  Claim C1, evaluated where the code departs from it. Connections 1 and 2 are live
  and subscribed to \<open>STOCK:AAPL\<close>, which has a value; the delivery to connection 1
  fails. The failure handler disconnects connection 1 and then awaits the \<^verbatim>\<open>None\<close>
  that \<^verbatim>\<open>disconnect\<close> returned: \<^verbatim>\<open>broadcast_data\<close> raises \<^verbatim>\<open>TypeError\<close>, connection 2
  gets nothing, and \<^verbatim>\<open>generate_data\<close>, given two ticks, is stopped by that exception in
  the first.
\<close>

theorem broadcast_send_failure_raises:
  "broadcast_data (delivers_except 1) (at_time (0::nat)) [''STOCK:AAPL'' \<mapsto> (10123::nat)]
     \<lparr>active_connections = [1::nat, 2],
      subscriptions = [1 \<mapsto> [''STOCK:AAPL''], 2 \<mapsto> [''STOCK:AAPL'']]\<rparr>
   = (\<lparr>active_connections = [2], subscriptions = [2 \<mapsto> [''STOCK:AAPL'']]\<rparr>, [], Raised TypeError)
   \<and> snd (generate_data [sample_tick 1, sample_tick 1] Map.empty
        \<lparr>active_connections = [1::nat, 2],
         subscriptions = [1 \<mapsto> [''STOCK:AAPL''], 2 \<mapsto> [''STOCK:AAPL'']]\<rparr>)
   = (\<lparr>active_connections = [2], subscriptions = [2 \<mapsto> [''STOCK:AAPL'']]\<rparr>, [[]], Stopped TypeError)"
  by (simp add: broadcast_data_def broadcast_loop.simps Let_def subscribed_def data_to_send_def
        delivers_except_def at_time_def disconnect_def fun_eq_iff sample_tick_def update_values_def)

text \<open>
  Claim C2, evaluated where the code departs from it. Connections 1, 2 and 3 are live
  and subscribed to \<open>STOCK:AAPL\<close>, which has a value; the delivery to connection 2
  fails. Connection 1 has its message, connection 2 is removed, and the tick ends
  there with \<^verbatim>\<open>TypeError\<close>: connection 3, live and with a non-empty payload, is never
  visited and gets no message.
\<close>

theorem teardown_cuts_tick_short:
  "broadcast_data (delivers_except 2) (at_time (0::nat)) [''STOCK:AAPL'' \<mapsto> (10123::nat)]
     \<lparr>active_connections = [1::nat, 2, 3],
      subscriptions = [1 \<mapsto> [''STOCK:AAPL''], 2 \<mapsto> [''STOCK:AAPL''], 3 \<mapsto> [''STOCK:AAPL'']]\<rparr>
   = (\<lparr>active_connections = [1, 3], subscriptions = [1 \<mapsto> [''STOCK:AAPL''], 3 \<mapsto> [''STOCK:AAPL'']]\<rparr>,
      [(1, [(''STOCK:AAPL'', 10123, 0)])], Raised TypeError)"
  by (simp add: broadcast_data_def broadcast_loop.simps Let_def subscribed_def data_to_send_def
        delivers_except_def at_time_def disconnect_def fun_eq_iff)

subsection \<open>The websocket route\<close>

text \<open>
  Claim C3, evaluated where the code departs from it. The frame \<^verbatim>\<open>42\<close> is JSON and not
  a command envelope. \<^verbatim>\<open>message.get\<close> raises \<^verbatim>\<open>AttributeError\<close>, which neither
  \<^verbatim>\<open>except\<close> clause catches: no error reply is sent, the route ends, the frame that
  follows is never read, and the connection stays registered since nothing
  disconnects it.
\<close>

theorem non_dict_frame_ends_route:
  "websocket_endpoint accepts loads_sample delivers (1::nat) [Inr ''42'', Inr ''{}''] init
   = (\<lparr>active_connections = [1], subscriptions = [1 \<mapsto> []]\<rparr>, [], Crashed AttributeError)"
  by (simp add: websocket_endpoint_def connect_def accepts_def init_def on_message_def loads_sample_def)

end
